theory Spec2Isabelle
  imports Main
begin

section \<open>Go values: errors, panics, pointers and interface values\<close>

text \<open>
  The package \<open>pkg/provider/aws\<close> (file \<open>client.go\<close>) is a facade over three clients of
  the AWS SDK. A Go \<open>error\<close> is an interface value: \<open>nil\<close> or some error value. Three
  kinds of error value matter to the code: values that implement the SDK's
  \<open>awserr.Error\<close> interface (they carry a code and a message), any other error value, and
  the value that \<open>errors.Wrap(cause, message)\<close> of \<open>github.com/pkg/errors\<close> builds.
  Pointers and interface values are options: \<open>None\<close> is \<open>nil\<close>.
\<close>

datatype err =
    AwsError string string
  | PlainError string
  | WithMessage err string

type_synonym error = "err option"

text \<open>
  A call either returns or panics. The code panics through \<open>session.Must\<close>; the Go
  runtime panics when a field is read through a nil pointer or a method is called on a
  nil interface value.
\<close>

datatype panic = PanicError err | NilDereference

datatype 'a outcome = Panic panic | Return 'a

text \<open>
  \<open>errors.Wrap\<close> returns \<open>nil\<close> for a nil error, and otherwise a new error value that
  holds the cause and the message. The wrapped value has no \<open>Code\<close> method, so it does
  not implement \<open>awserr.Error\<close>.
\<close>

definition errors_Wrap :: "error \<Rightarrow> string \<Rightarrow> error" where
  "errors_Wrap e message = (case e of None \<Rightarrow> None | Some cause \<Rightarrow> Some (WithMessage cause message))"

text \<open>
  The type assertion \<open>aerr, ok := err.(awserr.Error)\<close>: \<open>ok\<close> holds exactly when \<open>err\<close> is
  a non-nil value implementing the interface; the result is then its code and message.
\<close>

fun awserr_assert :: "error \<Rightarrow> (string \<times> string) option" where
  "awserr_assert (Some (AwsError code message)) = Some (code, message)"
| "awserr_assert (Some (PlainError message)) = None"
| "awserr_assert (Some (WithMessage cause message)) = None"
| "awserr_assert None = None"

section \<open>The SDK's configuration structures\<close>

text \<open>
  Only the fields that \<open>client.go\<close> sets are kept; every other field of \<open>aws.Config\<close> and
  \<open>session.Options\<close> keeps its zero value in the code. \<open>aws.String(region)\<close> is a non-nil
  pointer to the string. A nil and an empty \<open>SharedConfigFiles\<close> slice are both \<open>[]\<close>:
  the field is unset.
\<close>

datatype Credentials = NewStaticCredentials string string string

record aws_Config =
  cfg_Credentials :: "Credentials option"
  cfg_Region :: "string option"

record session_Options =
  Config :: aws_Config
  Profile :: string
  SharedConfigFiles :: "string list"

record AwsClientInput =
  AccessKeyID :: string
  SecretAccessKey :: string
  SessionToken :: string
  Region :: string

section \<open>Sub-clients and the facade\<close>

text \<open>
  The request and response structures of the SDK are not part of the repository: \<open>'i\<close>
  stands for the request structures and \<open>'o\<close> for the response structures (a method
  takes and returns pointers to them). A call to a sub-client is a blocking network call:
  it reads and changes the state \<open>'w\<close> of the world outside the facade, and it returns a
  response and an error, or panics. Of the SDK interfaces \<open>stsiface.STSAPI\<close>,
  \<open>s3iface.S3API\<close> and \<open>iamiface.IAMAPI\<close> only the methods that the facade calls are kept.
\<close>

type_synonym ('i, 'o, 'w) api_call =
  "'i option \<Rightarrow> 'w \<Rightarrow> ('o option \<times> error) outcome \<times> 'w"

record ('i, 'o, 'w) STSAPI =
  sts_AssumeRole :: "('i, 'o, 'w) api_call"
  sts_GetCallerIdentity :: "('i, 'o, 'w) api_call"
  sts_GetFederationToken :: "('i, 'o, 'w) api_call"

record ('i, 'o, 'w) S3API =
  s3_ListBuckets :: "('i, 'o, 'w) api_call"
  s3_DeleteBucket :: "('i, 'o, 'w) api_call"
  s3_ListObjects :: "('i, 'o, 'w) api_call"
  s3_DeleteObjects :: "('i, 'o, 'w) api_call"

record ('i, 'o, 'w) IAMAPI =
  iam_CreateAccessKey :: "('i, 'o, 'w) api_call"
  iam_DeleteAccessKey :: "('i, 'o, 'w) api_call"
  iam_ListAccessKeys :: "('i, 'o, 'w) api_call"
  iam_GetUser :: "('i, 'o, 'w) api_call"
  iam_CreateUser :: "('i, 'o, 'w) api_call"
  iam_ListUsers :: "('i, 'o, 'w) api_call"
  iam_AttachUserPolicy :: "('i, 'o, 'w) api_call"

text \<open>
  \<open>type AwsClient struct\<close>: three fields of interface type. A field is \<open>None\<close> when the
  interface value is nil, as in the zero value \<open>AwsClient{}\<close>.
\<close>

record ('i, 'o, 'w) AwsClient =
  iamClient :: "('i, 'o, 'w) IAMAPI option"
  stsClient :: "('i, 'o, 'w) STSAPI option"
  s3Client :: "('i, 'o, 'w) S3API option"

section \<open>What the constructors call outside the package\<close>

text \<open>
  The constructors call the Go standard library and the SDK. Each of these functions is
  called at most once in a construction, so each is a function of its argument in the
  environment in which the constructor runs. \<open>'s\<close> is the SDK's session.
  \<open>filepath.Abs\<close> fails when the working directory cannot be read;
  \<open>Credentials_Get\<close> is \<open>sess.Config.Credentials.Get()\<close>, of which the code keeps the
  error only. \<open>iam.New\<close>, \<open>sts.New\<close> and \<open>s3.New\<close> return the client for a session.
\<close>

record ('s, 'i, 'o, 'w) sdk =
  filepath_Abs :: "string \<Rightarrow> err + string"
  session_NewSessionWithOptions :: "session_Options \<Rightarrow> err + 's"
  session_NewSession :: "aws_Config \<Rightarrow> err + 's"
  Credentials_Get :: "'s \<Rightarrow> error"
  iam_New :: "'s \<Rightarrow> ('i, 'o, 'w) IAMAPI"
  sts_New :: "'s \<Rightarrow> ('i, 'o, 'w) STSAPI"
  s3_New :: "'s \<Rightarrow> ('i, 'o, 'w) S3API"

text \<open>
  \<open>session.Must\<close> is the SDK's helper around a session constructor: it panics with the
  error when the error is not nil and returns the session otherwise.
\<close>

definition session_Must :: "err + 's \<Rightarrow> 's outcome" where
  "session_Must r = (case r of Inl e \<Rightarrow> Panic (PanicError e) | Inr sess \<Rightarrow> Return sess)"

section \<open>\<open>NewAwsClient\<close>: credentials from the environment\<close>

text \<open>
  Lines 62 to 76 of \<open>client.go\<close>: the options of the session. The early return of line 73
  is the \<open>Inl\<close> result.
\<close>

definition NewAwsClient_options ::
  "('s, 'i, 'o, 'w) sdk \<Rightarrow> string \<Rightarrow> string \<Rightarrow> string \<Rightarrow> err + session_Options" where
  "NewAwsClient_options env profile region configFile =
     (let opt = \<lparr>Config = \<lparr>cfg_Credentials = None, cfg_Region = Some region\<rparr>,
                 Profile = profile, SharedConfigFiles = []\<rparr>
      in if configFile \<noteq> [] then
           (case filepath_Abs env configFile of
              Inl e \<Rightarrow> Inl e
            | Inr absCfgPath \<Rightarrow> Inr (opt\<lparr>SharedConfigFiles := [absCfgPath]\<rparr>))
         else Inr opt)"

text \<open>
  Lines 78 to 94: the session, the credential probe and the facade. Both branches of the
  \<open>switch\<close> on the error code are kept as the code has them.
\<close>

definition NewAwsClient_session ::
  "('s, 'i, 'o, 'w) sdk \<Rightarrow> session_Options
     \<Rightarrow> (('i, 'o, 'w) AwsClient option \<times> error) outcome" where
  "NewAwsClient_session env opt =
     (case session_Must (session_NewSessionWithOptions env opt) of
        Panic p \<Rightarrow> Panic p
      | Return sess \<Rightarrow>
          (let e = Credentials_Get env sess
           in case awserr_assert e of
                Some (code, message) \<Rightarrow>
                  (if code = ''NoCredentialProviders''
                   then Return (None, errors_Wrap e ''Could not create AWS session'')
                   else Return (None, errors_Wrap e ''Could not create AWS session''))
              | None \<Rightarrow>
                  Return (Some \<lparr>iamClient = Some (iam_New env sess),
                                stsClient = Some (sts_New env sess),
                                s3Client = Some (s3_New env sess)\<rparr>, None)))"

definition NewAwsClient ::
  "('s, 'i, 'o, 'w) sdk \<Rightarrow> string \<Rightarrow> string \<Rightarrow> string
     \<Rightarrow> (('i, 'o, 'w) AwsClient option \<times> error) outcome" where
  "NewAwsClient env profile region configFile =
     (case NewAwsClient_options env profile region configFile of
        Inl e \<Rightarrow> Return (None, Some e)
      | Inr opt \<Rightarrow> NewAwsClient_session env opt)"

section \<open>\<open>NewAwsClientWithInput\<close>: credentials from the caller\<close>

text \<open>
  Lines 98 to 114. The argument is a pointer; reading a field through a nil pointer
  panics.
\<close>

definition NewAwsClientWithInput ::
  "('s, 'i, 'o, 'w) sdk \<Rightarrow> AwsClientInput option
     \<Rightarrow> (('i, 'o, 'w) AwsClient option \<times> error) outcome" where
  "NewAwsClientWithInput env input =
     (case input of
        None \<Rightarrow> Panic NilDereference
      | Some inp \<Rightarrow>
          (let config = \<lparr>cfg_Credentials =
                            Some (NewStaticCredentials (AccessKeyID inp) (SecretAccessKey inp)
                                    (SessionToken inp)),
                         cfg_Region = Some (Region inp)\<rparr>
           in case session_NewSession env config of
                Inl e \<Rightarrow> Return (None, Some e)
              | Inr s \<Rightarrow>
                  Return (Some \<lparr>iamClient = Some (iam_New env s),
                                stsClient = Some (sts_New env s),
                                s3Client = Some (s3_New env s)\<rparr>, None)))"

section \<open>The forwarding methods\<close>

text \<open>
  A method has the receiver \<open>c *AwsClient\<close>. The expression
  \<open>c.stsClient.AssumeRole(input)\<close> reads a field through \<open>c\<close> (a panic when \<open>c\<close> is nil),
  calls the method of the interface value (a panic when the field is nil) and returns what
  the call returns. The result of a method is the outcome of the call, the receiver after
  the call and the world after the call.
\<close>

type_synonym ('i, 'o, 'w) method_result =
  "('o option \<times> error) outcome \<times> ('i, 'o, 'w) AwsClient option \<times> 'w"

definition invoke ::
  "(('i, 'o, 'w) AwsClient \<Rightarrow> 'api option) \<Rightarrow> ('api \<Rightarrow> ('i, 'o, 'w) api_call)
     \<Rightarrow> ('i, 'o, 'w) AwsClient option \<Rightarrow> 'i option \<Rightarrow> 'w \<Rightarrow> ('i, 'o, 'w) method_result" where
  "invoke field method c input w =
     (case c of
        None \<Rightarrow> (Panic NilDereference, c, w)
      | Some a \<Rightarrow>
          (case field a of
             None \<Rightarrow> (Panic NilDereference, c, w)
           | Some sub \<Rightarrow> (case method sub input w of (r, w') \<Rightarrow> (r, c, w'))))"

definition AssumeRole ::
  "('i, 'o, 'w) AwsClient option \<Rightarrow> 'i option \<Rightarrow> 'w \<Rightarrow> ('i, 'o, 'w) method_result" where
  "AssumeRole c input = invoke stsClient sts_AssumeRole c input"

definition GetCallerIdentity ::
  "('i, 'o, 'w) AwsClient option \<Rightarrow> 'i option \<Rightarrow> 'w \<Rightarrow> ('i, 'o, 'w) method_result" where
  "GetCallerIdentity c input = invoke stsClient sts_GetCallerIdentity c input"

definition GetFederationToken ::
  "('i, 'o, 'w) AwsClient option \<Rightarrow> 'i option \<Rightarrow> 'w \<Rightarrow> ('i, 'o, 'w) method_result" where
  "GetFederationToken c input = invoke stsClient sts_GetFederationToken c input"

definition ListBuckets ::
  "('i, 'o, 'w) AwsClient option \<Rightarrow> 'i option \<Rightarrow> 'w \<Rightarrow> ('i, 'o, 'w) method_result" where
  "ListBuckets c input = invoke s3Client s3_ListBuckets c input"

definition DeleteBucket ::
  "('i, 'o, 'w) AwsClient option \<Rightarrow> 'i option \<Rightarrow> 'w \<Rightarrow> ('i, 'o, 'w) method_result" where
  "DeleteBucket c input = invoke s3Client s3_DeleteBucket c input"

definition ListObjects ::
  "('i, 'o, 'w) AwsClient option \<Rightarrow> 'i option \<Rightarrow> 'w \<Rightarrow> ('i, 'o, 'w) method_result" where
  "ListObjects c input = invoke s3Client s3_ListObjects c input"

definition DeleteObjects ::
  "('i, 'o, 'w) AwsClient option \<Rightarrow> 'i option \<Rightarrow> 'w \<Rightarrow> ('i, 'o, 'w) method_result" where
  "DeleteObjects c input = invoke s3Client s3_DeleteObjects c input"

definition CreateAccessKey ::
  "('i, 'o, 'w) AwsClient option \<Rightarrow> 'i option \<Rightarrow> 'w \<Rightarrow> ('i, 'o, 'w) method_result" where
  "CreateAccessKey c input = invoke iamClient iam_CreateAccessKey c input"

definition DeleteAccessKey ::
  "('i, 'o, 'w) AwsClient option \<Rightarrow> 'i option \<Rightarrow> 'w \<Rightarrow> ('i, 'o, 'w) method_result" where
  "DeleteAccessKey c input = invoke iamClient iam_DeleteAccessKey c input"

definition ListAccessKeys ::
  "('i, 'o, 'w) AwsClient option \<Rightarrow> 'i option \<Rightarrow> 'w \<Rightarrow> ('i, 'o, 'w) method_result" where
  "ListAccessKeys c input = invoke iamClient iam_ListAccessKeys c input"

definition GetUser ::
  "('i, 'o, 'w) AwsClient option \<Rightarrow> 'i option \<Rightarrow> 'w \<Rightarrow> ('i, 'o, 'w) method_result" where
  "GetUser c input = invoke iamClient iam_GetUser c input"

definition CreateUser ::
  "('i, 'o, 'w) AwsClient option \<Rightarrow> 'i option \<Rightarrow> 'w \<Rightarrow> ('i, 'o, 'w) method_result" where
  "CreateUser c input = invoke iamClient iam_CreateUser c input"

definition ListUsers ::
  "('i, 'o, 'w) AwsClient option \<Rightarrow> 'i option \<Rightarrow> 'w \<Rightarrow> ('i, 'o, 'w) method_result" where
  "ListUsers c input = invoke iamClient iam_ListUsers c input"

definition AttachUserPolicy ::
  "('i, 'o, 'w) AwsClient option \<Rightarrow> 'i option \<Rightarrow> 'w \<Rightarrow> ('i, 'o, 'w) method_result" where
  "AttachUserPolicy c input = invoke iamClient iam_AttachUserPolicy c input"

section \<open>The invariant of the facade\<close>

text \<open>The three sub-client fields of a facade are not nil.\<close>

definition sub_clients_non_nil :: "('i, 'o, 'w) AwsClient \<Rightarrow> bool" where
  "sub_clients_non_nil a = (iamClient a \<noteq> None \<and> stsClient a \<noteq> None \<and> s3Client a \<noteq> None)"

definition receiver_non_nil :: "('i, 'o, 'w) AwsClient option \<Rightarrow> bool" where
  "receiver_non_nil c = (case c of None \<Rightarrow> False | Some a \<Rightarrow> sub_clients_non_nil a)"

definition receiver_after :: "('i, 'o, 'w) method_result \<Rightarrow> ('i, 'o, 'w) AwsClient option" where
  "receiver_after r = fst (snd r)"

section \<open>Concrete environments and sub-clients\<close>

text \<open>
  The concrete inputs on which the theorems below are instantiated. Requests and
  responses are strings, a session is a number, and the world counts the calls that
  reached a sub-client. \<open>fixed_call\<close> is a sub-client method in the manner of the
  generated mocks: it answers every request with one fixed response and error.
\<close>

definition fixed_call :: "string option \<Rightarrow> error \<Rightarrow> (string, string, nat) api_call" where
  "fixed_call response e input w = (Return (response, e), Suc w)"

definition mock_sts :: "(string, string, nat) STSAPI" where
  "mock_sts =
     \<lparr>sts_AssumeRole = fixed_call (Some ''assumed-role'') None,
      sts_GetCallerIdentity = fixed_call (Some ''identity'') None,
      sts_GetFederationToken = fixed_call None (Some (AwsError ''AccessDenied'' ''no federation''))\<rparr>"

definition mock_s3 :: "(string, string, nat) S3API" where
  "mock_s3 =
     \<lparr>s3_ListBuckets = fixed_call (Some ''buckets'') None,
      s3_DeleteBucket = fixed_call None (Some (AwsError ''NoSuchBucket'' ''no bucket'')),
      s3_ListObjects = fixed_call (Some ''objects'') None,
      s3_DeleteObjects = fixed_call (Some ''deleted'') (Some (PlainError ''partial''))\<rparr>"

definition mock_iam :: "(string, string, nat) IAMAPI" where
  "mock_iam =
     \<lparr>iam_CreateAccessKey = fixed_call (Some ''key'') None,
      iam_DeleteAccessKey = fixed_call (Some ''key-deleted'') None,
      iam_ListAccessKeys = fixed_call (Some ''keys'') None,
      iam_GetUser = fixed_call None (Some (AwsError ''NoSuchEntity'' ''no user'')),
      iam_CreateUser = fixed_call (Some ''user'') None,
      iam_ListUsers = fixed_call (Some ''users'') None,
      iam_AttachUserPolicy = fixed_call None (Some (PlainError ''timeout''))\<rparr>"

definition mock_client :: "(string, string, nat) AwsClient" where
  "mock_client = \<lparr>iamClient = Some mock_iam, stsClient = Some mock_sts, s3Client = Some mock_s3\<rparr>"

text \<open>
  An environment given by the working directory (or the error of reading it), the
  result of session construction and the result of the credential probe.
  \<open>filepath_Abs\<close> keeps a path that starts with a slash and joins any other path to
  the working directory. It does not clean the path as Go's \<open>filepath.Abs\<close> does; it is
  applied below to clean paths only, on which the two agree.
\<close>

definition mock_sdk ::
  "err + string \<Rightarrow> err + nat \<Rightarrow> error \<Rightarrow> (nat, string, string, nat) sdk" where
  "mock_sdk wd sess probe =
     \<lparr>filepath_Abs =
        (\<lambda>path. if take 1 path = ''/'' then Inr path
                else (case wd of Inl e \<Rightarrow> Inl e | Inr dir \<Rightarrow> Inr (dir @ ''/'' @ path))),
      session_NewSessionWithOptions = (\<lambda>opt. sess),
      session_NewSession = (\<lambda>config. sess),
      Credentials_Get = (\<lambda>s. probe),
      iam_New = (\<lambda>s. mock_iam),
      sts_New = (\<lambda>s. mock_sts),
      s3_New = (\<lambda>s. mock_s3)\<rparr>"

text \<open>
  An environment in which the profile is defined in one config file only: the session
  constructor builds session \<open>7\<close> when \<open>SharedConfigFiles\<close> holds exactly the path of
  that file, and fails on every other option value. The working directory is readable
  and the credential probe succeeds.
\<close>

definition config_file_sdk :: "string \<Rightarrow> string \<Rightarrow> (nat, string, string, nat) sdk" where
  "config_file_sdk dir file =
     (mock_sdk (Inr dir) (Inr 7) None)
       \<lparr>session_NewSessionWithOptions :=
          (\<lambda>opt. if SharedConfigFiles opt = [file] then Inr 7
                 else Inl (AwsError ''SharedConfigProfileNotExistsError'' ''failed to get profile''))\<rparr>"

section \<open>Properties of \<open>NewAwsClient\<close>\<close>

text \<open>
  C7: when \<open>configFile\<close> is the empty string, the options that \<open>NewAwsClient\<close> builds
  leave \<open>SharedConfigFiles\<close> unset, \<open>filepath.Abs\<close> plays no part, and the session is
  created from these options.
\<close>

theorem NewAwsClient_empty_configFile:
  "NewAwsClient_options env profile region [] =
     Inr \<lparr>Config = \<lparr>cfg_Credentials = None, cfg_Region = Some region\<rparr>,
          Profile = profile, SharedConfigFiles = []\<rparr>
   \<and> NewAwsClient env profile region [] =
     NewAwsClient_session env
       \<lparr>Config = \<lparr>cfg_Credentials = None, cfg_Region = Some region\<rparr>,
        Profile = profile, SharedConfigFiles = []\<rparr>"
  by (simp add: NewAwsClient_def NewAwsClient_options_def)

text \<open>
  C6, as stated, fails: for a non-empty \<open>configFile\<close> that \<open>filepath.Abs\<close> cannot
  resolve, \<open>NewAwsClient\<close> builds no options and returns the error of \<open>filepath.Abs\<close>
  with a nil client. No session is created: the session constructor of the environment
  below fails on every call, and \<open>session.Must\<close> would turn its error into a panic.
\<close>

theorem NewAwsClient_configFile_unresolved_counterexample:
  "NewAwsClient_options
       (mock_sdk (Inl (PlainError ''getwd: no such file or directory''))
          (Inl (AwsError ''SharedConfigLoadError'' ''failed to load config file'')) None)
       ''osd'' ''us-east-1'' ''conf/aws.ini'' =
     Inl (PlainError ''getwd: no such file or directory'')
   \<and> NewAwsClient
       (mock_sdk (Inl (PlainError ''getwd: no such file or directory''))
          (Inl (AwsError ''SharedConfigLoadError'' ''failed to load config file'')) None)
       ''osd'' ''us-east-1'' ''conf/aws.ini'' =
     (Return (None, Some (PlainError ''getwd: no such file or directory''))
        :: ((string, string, nat) AwsClient option \<times> error) outcome)"
  by (simp add: NewAwsClient_def NewAwsClient_options_def mock_sdk_def)

text \<open>
  C6, amended: for every non-empty \<open>configFile\<close> that \<open>filepath.Abs\<close> resolves,
  \<open>NewAwsClient\<close> resolves it before the session is created, and
  \<open>session.NewSessionWithOptions\<close> is called on options whose \<open>SharedConfigFiles\<close>
  holds exactly the path that \<open>filepath.Abs\<close> returned, with the profile and the
  region of the call. The result of \<open>NewAwsClient\<close> is the one that this call of the
  session constructor leads to: a panic with its error, or the probe of the credentials
  of its session.
\<close>

theorem NewAwsClient_configFile_absolute:
  assumes "configFile \<noteq> []"
    and "filepath_Abs env configFile = Inr absCfgPath"
  shows "NewAwsClient_options env profile region configFile =
           Inr \<lparr>Config = \<lparr>cfg_Credentials = None, cfg_Region = Some region\<rparr>,
                Profile = profile, SharedConfigFiles = [absCfgPath]\<rparr>
         \<and> NewAwsClient env profile region configFile =
           (case session_NewSessionWithOptions env
                   \<lparr>Config = \<lparr>cfg_Credentials = None, cfg_Region = Some region\<rparr>,
                    Profile = profile, SharedConfigFiles = [absCfgPath]\<rparr> of
              Inl e \<Rightarrow> Panic (PanicError e)
            | Inr sess \<Rightarrow>
                (case awserr_assert (Credentials_Get env sess) of
                   Some aerr \<Rightarrow>
                     Return (None, errors_Wrap (Credentials_Get env sess)
                                     ''Could not create AWS session'')
                 | None \<Rightarrow>
                     Return (Some \<lparr>iamClient = Some (iam_New env sess),
                                   stsClient = Some (sts_New env sess),
                                   s3Client = Some (s3_New env sess)\<rparr>, None)))"
  using assms
  by (simp add: NewAwsClient_def NewAwsClient_options_def NewAwsClient_session_def
        session_Must_def split: sum.splits option.splits)

theorem NewAwsClient_configFile_absolute_witness:
  "''conf/aws.ini'' \<noteq> []
   \<and> filepath_Abs (config_file_sdk ''/home/sre'' ''/home/sre/conf/aws.ini'') ''conf/aws.ini'' =
     Inr ''/home/sre/conf/aws.ini''
   \<and> session_NewSessionWithOptions (config_file_sdk ''/home/sre'' ''/home/sre/conf/aws.ini'')
       \<lparr>Config = \<lparr>cfg_Credentials = None, cfg_Region = Some ''us-east-1''\<rparr>,
        Profile = ''osd'', SharedConfigFiles = [''/home/sre/conf/aws.ini'']\<rparr> = Inr 7
   \<and> session_NewSessionWithOptions (config_file_sdk ''/home/sre'' ''/home/sre/conf/aws.ini'')
       \<lparr>Config = \<lparr>cfg_Credentials = None, cfg_Region = Some ''us-east-1''\<rparr>,
        Profile = ''osd'', SharedConfigFiles = []\<rparr> =
     Inl (AwsError ''SharedConfigProfileNotExistsError'' ''failed to get profile'')
   \<and> NewAwsClient_options (config_file_sdk ''/home/sre'' ''/home/sre/conf/aws.ini'')
       ''osd'' ''us-east-1'' ''conf/aws.ini'' =
     Inr \<lparr>Config = \<lparr>cfg_Credentials = None, cfg_Region = Some ''us-east-1''\<rparr>,
          Profile = ''osd'', SharedConfigFiles = [''/home/sre/conf/aws.ini'']\<rparr>
   \<and> NewAwsClient (config_file_sdk ''/home/sre'' ''/home/sre/conf/aws.ini'')
       ''osd'' ''us-east-1'' ''conf/aws.ini'' =
     Return (Some mock_client, None)"
proof -
  let ?env = "config_file_sdk ''/home/sre'' ''/home/sre/conf/aws.ini''"
  have nonempty: "''conf/aws.ini'' \<noteq> []"
    by simp
  have resolved: "filepath_Abs ?env ''conf/aws.ini'' = Inr ''/home/sre/conf/aws.ini''"
    by (simp add: config_file_sdk_def mock_sdk_def)
  have found: "session_NewSessionWithOptions ?env
       \<lparr>Config = \<lparr>cfg_Credentials = None, cfg_Region = Some ''us-east-1''\<rparr>,
        Profile = ''osd'', SharedConfigFiles = [''/home/sre/conf/aws.ini'']\<rparr> = Inr 7"
    by (simp add: config_file_sdk_def)
  have missing: "session_NewSessionWithOptions ?env
       \<lparr>Config = \<lparr>cfg_Credentials = None, cfg_Region = Some ''us-east-1''\<rparr>,
        Profile = ''osd'', SharedConfigFiles = []\<rparr> =
     Inl (AwsError ''SharedConfigProfileNotExistsError'' ''failed to get profile'')"
    by (simp add: config_file_sdk_def)
  have probe: "Credentials_Get ?env 7 = None"
    by (simp add: config_file_sdk_def mock_sdk_def)
  have clients: "iam_New ?env 7 = mock_iam" "sts_New ?env 7 = mock_sts" "s3_New ?env 7 = mock_s3"
    by (simp_all add: config_file_sdk_def mock_sdk_def)
  show ?thesis
    using NewAwsClient_configFile_absolute
            [OF nonempty resolved, of "''osd''" "''us-east-1''"]
          nonempty resolved found missing probe clients
    by (simp add: mock_client_def)
qed

text \<open>
  C2: when the options are built, the session is created and the credential probe returns
  a non-nil error that does not implement \<open>awserr.Error\<close>, \<open>NewAwsClient\<close> returns a
  non-nil client and a nil error.
\<close>

theorem NewAwsClient_swallows_other_errors:
  assumes "NewAwsClient_options env profile region configFile = Inr opt"
    and "session_NewSessionWithOptions env opt = Inr sess"
    and "Credentials_Get env sess = Some e"
    and "awserr_assert (Some e) = None"
  shows "NewAwsClient env profile region configFile =
           Return (Some \<lparr>iamClient = Some (iam_New env sess),
                         stsClient = Some (sts_New env sess),
                         s3Client = Some (s3_New env sess)\<rparr>, None)"
  using assms
  by (simp add: NewAwsClient_def NewAwsClient_session_def session_Must_def)

theorem NewAwsClient_swallows_other_errors_witness:
  "NewAwsClient_options (mock_sdk (Inr ''/home/sre'') (Inr 3) (Some (PlainError ''token file unreadable'')))
       ''osd'' ''eu-west-1'' ''/etc/aws.ini'' =
     Inr \<lparr>Config = \<lparr>cfg_Credentials = None, cfg_Region = Some ''eu-west-1''\<rparr>,
          Profile = ''osd'', SharedConfigFiles = [''/etc/aws.ini'']\<rparr>
   \<and> awserr_assert (Some (PlainError ''token file unreadable'')) = None
   \<and> NewAwsClient (mock_sdk (Inr ''/home/sre'') (Inr 3) (Some (PlainError ''token file unreadable'')))
       ''osd'' ''eu-west-1'' ''/etc/aws.ini'' =
     Return (Some \<lparr>iamClient = Some mock_iam, stsClient = Some mock_sts,
                   s3Client = Some mock_s3\<rparr>, None)"
proof -
  let ?env = "mock_sdk (Inr ''/home/sre'') (Inr 3) (Some (PlainError ''token file unreadable''))"
  have opts: "NewAwsClient_options ?env ''osd'' ''eu-west-1'' ''/etc/aws.ini'' =
     Inr \<lparr>Config = \<lparr>cfg_Credentials = None, cfg_Region = Some ''eu-west-1''\<rparr>,
          Profile = ''osd'', SharedConfigFiles = [''/etc/aws.ini'']\<rparr>"
    by (simp add: NewAwsClient_options_def mock_sdk_def)
  have sess: "session_NewSessionWithOptions ?env
       \<lparr>Config = \<lparr>cfg_Credentials = None, cfg_Region = Some ''eu-west-1''\<rparr>,
        Profile = ''osd'', SharedConfigFiles = [''/etc/aws.ini'']\<rparr> = Inr 3"
    by (simp add: mock_sdk_def)
  have probe: "Credentials_Get ?env 3 = Some (PlainError ''token file unreadable'')"
    by (simp add: mock_sdk_def)
  have other: "awserr_assert (Some (PlainError ''token file unreadable'')) = None"
    by simp
  show ?thesis
    using NewAwsClient_swallows_other_errors [OF opts sess probe other] opts other
    by (simp add: mock_sdk_def)
qed

text \<open>
  C1 says that \<open>NewAwsClient\<close> returns a nil client and a wrapped error whenever the
  credential probe fails. The code does so only for an error that implements
  \<open>awserr.Error\<close>: in the environment below the options are built, the session is
  created and the probe fails with another kind of error, and \<open>NewAwsClient\<close> returns
  a non-nil client and a nil error.
\<close>

theorem NewAwsClient_probe_failure_returns_client:
  "Credentials_Get (mock_sdk (Inr ''/home/sre'') (Inr 0) (Some (PlainError ''failed to read cached SSO token file''))) 0 =
     Some (PlainError ''failed to read cached SSO token file'')
   \<and> NewAwsClient (mock_sdk (Inr ''/home/sre'') (Inr 0) (Some (PlainError ''failed to read cached SSO token file'')))
       ''default'' ''us-east-1'' [] =
     Return (Some mock_client, None)"
  by (simp add: NewAwsClient_def NewAwsClient_options_def NewAwsClient_session_def
        session_Must_def mock_sdk_def mock_client_def)

text \<open>
  C3, as stated, fails: a failure of session construction is raised as a panic, and a
  failure of \<open>filepath.Abs\<close> is returned without a wrap.
\<close>

theorem NewAwsClient_failures_counterexample:
  "NewAwsClient (mock_sdk (Inr ''/home/sre'') (Inl (AwsError ''SharedConfigLoadError'' ''failed to load config file'')) None)
       ''osd'' ''us-east-1'' ''/missing/aws.ini'' =
     (Panic (PanicError (AwsError ''SharedConfigLoadError'' ''failed to load config file''))
        :: ((string, string, nat) AwsClient option \<times> error) outcome)
   \<and> NewAwsClient (mock_sdk (Inl (PlainError ''getwd: no such file or directory'')) (Inr 0) None)
       ''osd'' ''us-east-1'' ''conf/aws.ini'' =
     (Return (None, Some (PlainError ''getwd: no such file or directory''))
        :: ((string, string, nat) AwsClient option \<times> error) outcome)"
  by (simp add: NewAwsClient_def NewAwsClient_options_def NewAwsClient_session_def
        session_Must_def mock_sdk_def)

text \<open>
  C3, amended: a failure of the credential probe that is an \<open>awserr.Error\<close> is returned
  with a nil client, wrapped with the message \<open>Could not create AWS session\<close>; a failure
  of \<open>filepath.Abs\<close> is returned with a nil client, as it is; a failure of session
  construction is raised as a panic that carries the error.
\<close>

theorem NewAwsClient_failures:
  "(NewAwsClient_options env profile region configFile = Inr opt
      \<and> session_NewSessionWithOptions env opt = Inr sess
      \<and> Credentials_Get env sess = Some (AwsError code message)
    \<longrightarrow> NewAwsClient env profile region configFile =
          Return (None, Some (WithMessage (AwsError code message) ''Could not create AWS session'')))
   \<and> (configFile \<noteq> [] \<and> filepath_Abs env configFile = Inl e
    \<longrightarrow> NewAwsClient env profile region configFile = Return (None, Some e))
   \<and> (NewAwsClient_options env profile region configFile = Inr opt
      \<and> session_NewSessionWithOptions env opt = Inl e
    \<longrightarrow> NewAwsClient env profile region configFile = Panic (PanicError e))"
  by (simp add: NewAwsClient_def NewAwsClient_options_def NewAwsClient_session_def
        session_Must_def errors_Wrap_def)


theorem NewAwsClient_failures_witness:
  "NewAwsClient_options
       (mock_sdk (Inr ''/home/sre'') (Inr 5) (Some (AwsError ''NoCredentialProviders'' ''no valid providers in chain'')))
       ''osd'' ''us-east-1'' [] =
     Inr \<lparr>Config = \<lparr>cfg_Credentials = None, cfg_Region = Some ''us-east-1''\<rparr>,
          Profile = ''osd'', SharedConfigFiles = []\<rparr>
   \<and> NewAwsClient
       (mock_sdk (Inr ''/home/sre'') (Inr 5) (Some (AwsError ''NoCredentialProviders'' ''no valid providers in chain'')))
       ''osd'' ''us-east-1'' [] =
     (Return (None, Some (WithMessage (AwsError ''NoCredentialProviders'' ''no valid providers in chain'')
                            ''Could not create AWS session''))
        :: ((string, string, nat) AwsClient option \<times> error) outcome)
   \<and> filepath_Abs (mock_sdk (Inl (PlainError ''getwd: no such file or directory'')) (Inr 5) None)
       ''conf/aws.ini'' = Inl (PlainError ''getwd: no such file or directory'')
   \<and> NewAwsClient (mock_sdk (Inl (PlainError ''getwd: no such file or directory'')) (Inr 5) None)
       ''osd'' ''us-east-1'' ''conf/aws.ini'' =
     (Return (None, Some (PlainError ''getwd: no such file or directory''))
        :: ((string, string, nat) AwsClient option \<times> error) outcome)
   \<and> session_NewSessionWithOptions
       (mock_sdk (Inr ''/home/sre'') (Inl (AwsError ''SharedConfigLoadError'' ''failed to load config file'')) None)
       \<lparr>Config = \<lparr>cfg_Credentials = None, cfg_Region = Some ''us-east-1''\<rparr>,
        Profile = ''osd'', SharedConfigFiles = []\<rparr> =
     Inl (AwsError ''SharedConfigLoadError'' ''failed to load config file'')
   \<and> NewAwsClient
       (mock_sdk (Inr ''/home/sre'') (Inl (AwsError ''SharedConfigLoadError'' ''failed to load config file'')) None)
       ''osd'' ''us-east-1'' [] =
     (Panic (PanicError (AwsError ''SharedConfigLoadError'' ''failed to load config file''))
        :: ((string, string, nat) AwsClient option \<times> error) outcome)"
proof -
  let ?opt = "\<lparr>Config = \<lparr>cfg_Credentials = None, cfg_Region = Some ''us-east-1''\<rparr>,
               Profile = ''osd'', SharedConfigFiles = []\<rparr>"
  let ?probe = "AwsError ''NoCredentialProviders'' ''no valid providers in chain''"
  let ?getwd = "PlainError ''getwd: no such file or directory''"
  let ?load = "AwsError ''SharedConfigLoadError'' ''failed to load config file''"
  let ?env1 = "mock_sdk (Inr ''/home/sre'') (Inr 5) (Some ?probe)"
  let ?env2 = "mock_sdk (Inl ?getwd) (Inr 5) None"
  let ?env3 = "mock_sdk (Inr ''/home/sre'') (Inl ?load) None"
  have opt1: "NewAwsClient_options ?env1 ''osd'' ''us-east-1'' [] = Inr ?opt"
    by (simp add: NewAwsClient_options_def)
  have sess1: "session_NewSessionWithOptions ?env1 ?opt = Inr 5"
    by (simp add: mock_sdk_def)
  have probe1: "Credentials_Get ?env1 5 = Some ?probe"
    by (simp add: mock_sdk_def)
  have abs2: "filepath_Abs ?env2 ''conf/aws.ini'' = Inl ?getwd"
    by (simp add: mock_sdk_def)
  have opt3: "NewAwsClient_options ?env3 ''osd'' ''us-east-1'' [] = Inr ?opt"
    by (simp add: NewAwsClient_options_def)
  have sess3: "session_NewSessionWithOptions ?env3 ?opt = Inl ?load"
    by (simp add: mock_sdk_def)
  show ?thesis
    using NewAwsClient_failures
            [where env = ?env1 and profile = "''osd''" and region = "''us-east-1''"
               and configFile = "[]" and opt = ?opt and sess = 5
               and code = "''NoCredentialProviders''" and message = "''no valid providers in chain''"]
          NewAwsClient_failures
            [where env = ?env2 and profile = "''osd''" and region = "''us-east-1''"
               and configFile = "''conf/aws.ini''" and e = ?getwd]
          NewAwsClient_failures
            [where env = ?env3 and profile = "''osd''" and region = "''us-east-1''"
               and configFile = "[]" and opt = ?opt and e = ?load]
          opt1 sess1 probe1 abs2 opt3 sess3
    by simp
qed

section \<open>Properties of the forwarding methods and of the invariant\<close>

lemma invoke_Some:
  "field a = Some sub \<Longrightarrow>
     invoke field method (Some a) input w =
       (case method sub input w of (r, w') \<Rightarrow> (r, Some a, w'))"
  by (simp add: invoke_def)

lemma receiver_after_invoke: "receiver_after (invoke field method c input w) = c"
  by (simp add: invoke_def receiver_after_def split: option.splits prod.splits)

lemma awserr_assert_Some_wrap:
  "awserr_assert e = Some x \<Longrightarrow> errors_Wrap e message \<noteq> None"
  by (cases e) (simp_all add: errors_Wrap_def)

lemma NewAwsClient_session_nil_error:
  "NewAwsClient_session env opt = Return (c, None) \<Longrightarrow> receiver_non_nil c"
  by (auto simp: NewAwsClient_session_def session_Must_def receiver_non_nil_def
        sub_clients_non_nil_def Let_def
      split: sum.splits option.splits if_splits prod.splits
      dest: awserr_assert_Some_wrap)

lemma NewAwsClient_nil_error:
  "NewAwsClient env profile region configFile = Return (c, None) \<Longrightarrow> receiver_non_nil c"
  by (auto simp: NewAwsClient_def split: sum.splits dest: NewAwsClient_session_nil_error)

lemma NewAwsClientWithInput_nil_error:
  "NewAwsClientWithInput env input = Return (c, None) \<Longrightarrow> receiver_non_nil c"
  by (auto simp: NewAwsClientWithInput_def receiver_non_nil_def sub_clients_non_nil_def Let_def
      split: sum.splits option.splits)

text \<open>
  C4: on a facade whose three sub-clients are set, each of the fourteen methods makes one
  call of the sub-client's method of the same name, with the input it received, and
  returns the outcome of that call: the response and the error, as they are. The world
  after the method is the world after that one call.
\<close>

theorem forwarding_methods_pass_through:
  assumes "iamClient a = Some iam" and "stsClient a = Some sts" and "s3Client a = Some s3"
  shows "AssumeRole (Some a) input w =
       (case sts_AssumeRole sts input w of (r, w') \<Rightarrow> (r, Some a, w'))
   \<and> GetCallerIdentity (Some a) input w =
       (case sts_GetCallerIdentity sts input w of (r, w') \<Rightarrow> (r, Some a, w'))
   \<and> GetFederationToken (Some a) input w =
       (case sts_GetFederationToken sts input w of (r, w') \<Rightarrow> (r, Some a, w'))
   \<and> ListBuckets (Some a) input w =
       (case s3_ListBuckets s3 input w of (r, w') \<Rightarrow> (r, Some a, w'))
   \<and> DeleteBucket (Some a) input w =
       (case s3_DeleteBucket s3 input w of (r, w') \<Rightarrow> (r, Some a, w'))
   \<and> ListObjects (Some a) input w =
       (case s3_ListObjects s3 input w of (r, w') \<Rightarrow> (r, Some a, w'))
   \<and> DeleteObjects (Some a) input w =
       (case s3_DeleteObjects s3 input w of (r, w') \<Rightarrow> (r, Some a, w'))
   \<and> CreateAccessKey (Some a) input w =
       (case iam_CreateAccessKey iam input w of (r, w') \<Rightarrow> (r, Some a, w'))
   \<and> DeleteAccessKey (Some a) input w =
       (case iam_DeleteAccessKey iam input w of (r, w') \<Rightarrow> (r, Some a, w'))
   \<and> ListAccessKeys (Some a) input w =
       (case iam_ListAccessKeys iam input w of (r, w') \<Rightarrow> (r, Some a, w'))
   \<and> GetUser (Some a) input w =
       (case iam_GetUser iam input w of (r, w') \<Rightarrow> (r, Some a, w'))
   \<and> CreateUser (Some a) input w =
       (case iam_CreateUser iam input w of (r, w') \<Rightarrow> (r, Some a, w'))
   \<and> ListUsers (Some a) input w =
       (case iam_ListUsers iam input w of (r, w') \<Rightarrow> (r, Some a, w'))
   \<and> AttachUserPolicy (Some a) input w =
       (case iam_AttachUserPolicy iam input w of (r, w') \<Rightarrow> (r, Some a, w'))"
  using assms by (simp add: AssumeRole_def GetCallerIdentity_def GetFederationToken_def ListBuckets_def DeleteBucket_def ListObjects_def DeleteObjects_def CreateAccessKey_def DeleteAccessKey_def ListAccessKeys_def GetUser_def CreateUser_def ListUsers_def AttachUserPolicy_def invoke_Some)

theorem forwarding_methods_pass_through_witness:
  "iamClient mock_client = Some mock_iam \<and> stsClient mock_client = Some mock_sts
   \<and> s3Client mock_client = Some mock_s3
   \<and> AssumeRole (Some mock_client) (Some ''request'') 4 =
       (Return (Some ''assumed-role'', None), Some mock_client, 5)
   \<and> GetCallerIdentity (Some mock_client) (Some ''request'') 4 =
       (Return (Some ''identity'', None), Some mock_client, 5)
   \<and> GetFederationToken (Some mock_client) (Some ''request'') 4 =
       (Return (None, Some (AwsError ''AccessDenied'' ''no federation'')), Some mock_client, 5)
   \<and> ListBuckets (Some mock_client) (Some ''request'') 4 =
       (Return (Some ''buckets'', None), Some mock_client, 5)
   \<and> DeleteBucket (Some mock_client) (Some ''request'') 4 =
       (Return (None, Some (AwsError ''NoSuchBucket'' ''no bucket'')), Some mock_client, 5)
   \<and> ListObjects (Some mock_client) (Some ''request'') 4 =
       (Return (Some ''objects'', None), Some mock_client, 5)
   \<and> DeleteObjects (Some mock_client) (Some ''request'') 4 =
       (Return (Some ''deleted'', Some (PlainError ''partial'')), Some mock_client, 5)
   \<and> CreateAccessKey (Some mock_client) (Some ''request'') 4 =
       (Return (Some ''key'', None), Some mock_client, 5)
   \<and> DeleteAccessKey (Some mock_client) (Some ''request'') 4 =
       (Return (Some ''key-deleted'', None), Some mock_client, 5)
   \<and> ListAccessKeys (Some mock_client) (Some ''request'') 4 =
       (Return (Some ''keys'', None), Some mock_client, 5)
   \<and> GetUser (Some mock_client) (Some ''request'') 4 =
       (Return (None, Some (AwsError ''NoSuchEntity'' ''no user'')), Some mock_client, 5)
   \<and> CreateUser (Some mock_client) (Some ''request'') 4 =
       (Return (Some ''user'', None), Some mock_client, 5)
   \<and> ListUsers (Some mock_client) (Some ''request'') 4 =
       (Return (Some ''users'', None), Some mock_client, 5)
   \<and> AttachUserPolicy (Some mock_client) (Some ''request'') 4 =
       (Return (None, Some (PlainError ''timeout'')), Some mock_client, 5)"
proof -
  have iam: "iamClient mock_client = Some mock_iam"
    and sts: "stsClient mock_client = Some mock_sts"
    and s3: "s3Client mock_client = Some mock_s3"
    by (simp_all add: mock_client_def)
  show ?thesis
    using forwarding_methods_pass_through [OF iam sts s3, of "Some ''request''" 4] iam sts s3
    by (simp add: mock_sts_def mock_s3_def mock_iam_def fixed_call_def)
qed

text \<open>
  C10: each of the fourteen methods, on every receiver, input and world, leaves the
  receiver as it was: the pointer and the three fields of the facade it points to.
\<close>

theorem forwarding_methods_leave_facade_unchanged:
  "receiver_after (AssumeRole c input w) = c
   \<and> receiver_after (GetCallerIdentity c input w) = c
   \<and> receiver_after (GetFederationToken c input w) = c
   \<and> receiver_after (ListBuckets c input w) = c
   \<and> receiver_after (DeleteBucket c input w) = c
   \<and> receiver_after (ListObjects c input w) = c
   \<and> receiver_after (DeleteObjects c input w) = c
   \<and> receiver_after (CreateAccessKey c input w) = c
   \<and> receiver_after (DeleteAccessKey c input w) = c
   \<and> receiver_after (ListAccessKeys c input w) = c
   \<and> receiver_after (GetUser c input w) = c
   \<and> receiver_after (CreateUser c input w) = c
   \<and> receiver_after (ListUsers c input w) = c
   \<and> receiver_after (AttachUserPolicy c input w) = c"
  by (simp add: AssumeRole_def GetCallerIdentity_def GetFederationToken_def ListBuckets_def DeleteBucket_def ListObjects_def DeleteObjects_def CreateAccessKey_def DeleteAccessKey_def ListAccessKeys_def GetUser_def CreateUser_def ListUsers_def AttachUserPolicy_def receiver_after_invoke)

text \<open>
  C9: when \<open>NewAwsClient\<close> or \<open>NewAwsClientWithInput\<close> returns a nil error, the client
  it returns is not nil and its three sub-client fields are not nil; and a receiver with
  this property has it again after each of the fourteen methods.
\<close>

theorem sub_clients_non_nil_invariant:
  "(NewAwsClient env profile region configFile = Return (c, None) \<longrightarrow> receiver_non_nil c)
   \<and> (NewAwsClientWithInput env clientInput = Return (c, None) \<longrightarrow> receiver_non_nil c)
   \<and> (receiver_non_nil c \<longrightarrow>
        receiver_non_nil (receiver_after (AssumeRole c input w))
      \<and> receiver_non_nil (receiver_after (GetCallerIdentity c input w))
      \<and> receiver_non_nil (receiver_after (GetFederationToken c input w))
      \<and> receiver_non_nil (receiver_after (ListBuckets c input w))
      \<and> receiver_non_nil (receiver_after (DeleteBucket c input w))
      \<and> receiver_non_nil (receiver_after (ListObjects c input w))
      \<and> receiver_non_nil (receiver_after (DeleteObjects c input w))
      \<and> receiver_non_nil (receiver_after (CreateAccessKey c input w))
      \<and> receiver_non_nil (receiver_after (DeleteAccessKey c input w))
      \<and> receiver_non_nil (receiver_after (ListAccessKeys c input w))
      \<and> receiver_non_nil (receiver_after (GetUser c input w))
      \<and> receiver_non_nil (receiver_after (CreateUser c input w))
      \<and> receiver_non_nil (receiver_after (ListUsers c input w))
      \<and> receiver_non_nil (receiver_after (AttachUserPolicy c input w)))"
  by (simp add: NewAwsClient_nil_error NewAwsClientWithInput_nil_error
        AssumeRole_def GetCallerIdentity_def GetFederationToken_def ListBuckets_def DeleteBucket_def ListObjects_def DeleteObjects_def CreateAccessKey_def DeleteAccessKey_def ListAccessKeys_def GetUser_def CreateUser_def ListUsers_def AttachUserPolicy_def receiver_after_invoke)

theorem sub_clients_non_nil_invariant_witness:
  "NewAwsClient (mock_sdk (Inr ''/home/sre'') (Inr 1) None) ''osd'' ''us-east-1'' [] =
     Return (Some mock_client, None)
   \<and> NewAwsClientWithInput (mock_sdk (Inr ''/home/sre'') (Inr 1) None)
       (Some \<lparr>AccessKeyID = ''AKIAEXAMPLE'', SecretAccessKey = ''secret'',
              SessionToken = ''token'', Region = ''us-east-1''\<rparr>) =
     Return (Some mock_client, None)
   \<and> receiver_non_nil (Some mock_client)
   \<and> receiver_non_nil (receiver_after (AssumeRole (Some mock_client) None 0))
   \<and> receiver_non_nil (receiver_after (DeleteBucket (Some mock_client) (Some ''bucket'') 0))
   \<and> receiver_non_nil (receiver_after (AttachUserPolicy (Some mock_client) (Some ''policy'') 0))"
proof -
  let ?env = "mock_sdk (Inr ''/home/sre'') (Inr 1) None"
  let ?inp = "\<lparr>AccessKeyID = ''AKIAEXAMPLE'', SecretAccessKey = ''secret'',
               SessionToken = ''token'', Region = ''us-east-1''\<rparr>"
  have ambient: "NewAwsClient ?env ''osd'' ''us-east-1'' [] = Return (Some mock_client, None)"
    by (simp add: NewAwsClient_def NewAwsClient_options_def NewAwsClient_session_def
          session_Must_def mock_sdk_def mock_client_def)
  have static: "NewAwsClientWithInput ?env (Some ?inp) = Return (Some mock_client, None)"
    by (simp add: NewAwsClientWithInput_def mock_sdk_def mock_client_def)
  show ?thesis
    using sub_clients_non_nil_invariant
            [where env = ?env and profile = "''osd''" and region = "''us-east-1''"
               and configFile = "[]" and clientInput = "Some ?inp" and c = "Some mock_client"
               and input = None and w = 0]
          sub_clients_non_nil_invariant
            [where env = ?env and profile = "''osd''" and region = "''us-east-1''"
               and configFile = "[]" and clientInput = "Some ?inp" and c = "Some mock_client"
               and input = "Some ''bucket''" and w = 0]
          sub_clients_non_nil_invariant
            [where env = ?env and profile = "''osd''" and region = "''us-east-1''"
               and configFile = "[]" and clientInput = "Some ?inp" and c = "Some mock_client"
               and input = "Some ''policy''" and w = 0]
          ambient static
    by simp
qed

section \<open>Properties of \<open>NewAwsClientWithInput\<close>\<close>

text \<open>
  C8: when the SDK builds the session from the static credentials and the region of the
  input, \<open>NewAwsClientWithInput\<close> returns a non-nil client, made of the three clients of
  that session, and a nil error.
\<close>

theorem NewAwsClientWithInput_success:
  assumes "session_NewSession env
             \<lparr>cfg_Credentials = Some (NewStaticCredentials (AccessKeyID inp) (SecretAccessKey inp)
                                        (SessionToken inp)),
              cfg_Region = Some (Region inp)\<rparr> = Inr s"
  shows "NewAwsClientWithInput env (Some inp) =
           Return (Some \<lparr>iamClient = Some (iam_New env s),
                         stsClient = Some (sts_New env s),
                         s3Client = Some (s3_New env s)\<rparr>, None)"
  using assms by (simp add: NewAwsClientWithInput_def)

theorem NewAwsClientWithInput_success_witness:
  "session_NewSession
       (mock_sdk (Inr ''/home/sre'') (Inr 2) (Some (AwsError ''NoCredentialProviders'' ''no valid providers in chain'')))
       \<lparr>cfg_Credentials = Some (NewStaticCredentials ''AKIAEXAMPLE'' ''secret'' ''token''),
        cfg_Region = Some ''us-east-1''\<rparr> = Inr 2
   \<and> NewAwsClientWithInput
       (mock_sdk (Inr ''/home/sre'') (Inr 2) (Some (AwsError ''NoCredentialProviders'' ''no valid providers in chain'')))
       (Some \<lparr>AccessKeyID = ''AKIAEXAMPLE'', SecretAccessKey = ''secret'',
              SessionToken = ''token'', Region = ''us-east-1''\<rparr>) =
     Return (Some mock_client, None)"
proof -
  let ?env = "mock_sdk (Inr ''/home/sre'') (Inr 2)
                (Some (AwsError ''NoCredentialProviders'' ''no valid providers in chain''))"
  let ?inp = "\<lparr>AccessKeyID = ''AKIAEXAMPLE'', SecretAccessKey = ''secret'',
               SessionToken = ''token'', Region = ''us-east-1''\<rparr>"
  have built: "session_NewSession ?env
                 \<lparr>cfg_Credentials = Some (NewStaticCredentials (AccessKeyID ?inp)
                                            (SecretAccessKey ?inp) (SessionToken ?inp)),
                  cfg_Region = Some (Region ?inp)\<rparr> = Inr 2"
    by (simp add: mock_sdk_def)
  show ?thesis
    using NewAwsClientWithInput_success [OF built] built
    by (simp add: mock_sdk_def mock_client_def)
qed

text \<open>
  C5: \<open>NewAwsClientWithInput\<close> does not probe the credentials: its result is the same
  whatever \<open>Credentials.Get\<close> would return. It returns a non-nil error only when the
  construction of the session from the static credentials and the region fails; the error
  is then the one of the session construction and the client is nil.
\<close>

theorem NewAwsClientWithInput_no_probe:
  "NewAwsClientWithInput (env\<lparr>Credentials_Get := probe\<rparr>) input = NewAwsClientWithInput env input
   \<and> (NewAwsClientWithInput env input = Return (c, Some e) \<longrightarrow>
        c = None
        \<and> (\<exists>inp. input = Some inp
             \<and> session_NewSession env
                 \<lparr>cfg_Credentials = Some (NewStaticCredentials (AccessKeyID inp) (SecretAccessKey inp)
                                            (SessionToken inp)),
                  cfg_Region = Some (Region inp)\<rparr> = Inl e))
   \<and> (session_NewSession env
         \<lparr>cfg_Credentials = Some (NewStaticCredentials (AccessKeyID i) (SecretAccessKey i)
                                    (SessionToken i)),
          cfg_Region = Some (Region i)\<rparr> = Inl e \<longrightarrow>
        NewAwsClientWithInput env (Some i) = Return (None, Some e))"
  by (auto simp: NewAwsClientWithInput_def Let_def split: option.splits sum.splits)

theorem NewAwsClientWithInput_no_probe_witness:
  "session_NewSession
       (mock_sdk (Inr ''/home/sre'') (Inl (PlainError ''custom CA bundle not found'')) None)
       \<lparr>cfg_Credentials = Some (NewStaticCredentials ''AKIAEXAMPLE'' ''secret'' ''token''),
        cfg_Region = Some ''us-east-1''\<rparr> = Inl (PlainError ''custom CA bundle not found'')
   \<and> NewAwsClientWithInput
       (mock_sdk (Inr ''/home/sre'') (Inl (PlainError ''custom CA bundle not found'')) None)
       (Some \<lparr>AccessKeyID = ''AKIAEXAMPLE'', SecretAccessKey = ''secret'',
              SessionToken = ''token'', Region = ''us-east-1''\<rparr>) =
     (Return (None, Some (PlainError ''custom CA bundle not found''))
        :: ((string, string, nat) AwsClient option \<times> error) outcome)
   \<and> NewAwsClientWithInput
       ((mock_sdk (Inr ''/home/sre'') (Inl (PlainError ''custom CA bundle not found'')) None)
          \<lparr>Credentials_Get := \<lambda>s. Some (AwsError ''ExpiredToken'' ''expired'')\<rparr>)
       (Some \<lparr>AccessKeyID = ''AKIAEXAMPLE'', SecretAccessKey = ''secret'',
              SessionToken = ''token'', Region = ''us-east-1''\<rparr>) =
     (Return (None, Some (PlainError ''custom CA bundle not found''))
        :: ((string, string, nat) AwsClient option \<times> error) outcome)"
proof -
  let ?e = "PlainError ''custom CA bundle not found''"
  let ?env = "mock_sdk (Inr ''/home/sre'') (Inl ?e) None"
  let ?inp = "\<lparr>AccessKeyID = ''AKIAEXAMPLE'', SecretAccessKey = ''secret'',
               SessionToken = ''token'', Region = ''us-east-1''\<rparr>"
  have failed: "session_NewSession ?env
                  \<lparr>cfg_Credentials = Some (NewStaticCredentials (AccessKeyID ?inp)
                                             (SecretAccessKey ?inp) (SessionToken ?inp)),
                   cfg_Region = Some (Region ?inp)\<rparr> = Inl ?e"
    by (simp add: mock_sdk_def)
  show ?thesis
    using NewAwsClientWithInput_no_probe
            [where env = ?env and input = "Some ?inp" and i = ?inp and e = ?e and c = None
               and probe = "\<lambda>s. Some (AwsError ''ExpiredToken'' ''expired'')"]
          failed
    by simp
qed

end
